theory Spec2Isabelle
  imports Complex_Main
begin

section \<open>Data of the notebook \<^verbatim>\<open>bilstm_imdb_scratch.ipynb\<close>\<close>

text \<open>
  The notebook is a linear script over a deep-learning framework: it prepares the IMDB
  data, assembles a bidirectional LSTM classifier, trains it for a fixed number of epochs
  and checkpoints the best model. Its functions are embedded one by one below, each next
  to the Python it is translated from. The framework's own computations (tensor kernels,
  automatic differentiation, the optimizer's rule) are opaque and appear as parameters.

  Loss values are modelled as \<^typ>\<open>real\<close> numbers: the notebook's float arithmetic is
  idealised, so there is no rounding and no NaN. A batch is the pair the tuple iterator
  yields: the padded token-id sequences and their labels.
\<close>

type_synonym tensor2 = "real list list"
type_synonym tensor3 = "real list list list"
type_synonym batch = "nat list list \<times> int list"
type_synonym dataset = "batch list"

datatype error = ZeroDivisionError | IndexError | ValueError

text \<open>
  Modelled from the spec: the dataset collaborator is a finite sequence of batches;
  \<^verbatim>\<open>get_dataset_size\<close> reports their number and \<^verbatim>\<open>create_tuple_iterator\<close> yields
  them in order.
\<close>

definition get_dataset_size :: "dataset \<Rightarrow> nat" where
  "get_dataset_size ds = length ds"

definition create_tuple_iterator :: "dataset \<Rightarrow> batch list" where
  "create_tuple_iterator ds = ds"

text \<open>\<^verbatim>\<open>label.astype(mindspore.int32)\<close>: the cast keeps the low 32 bits, read as signed.\<close>

definition astype_int32 :: "int list \<Rightarrow> int list" where
  "astype_int32 label = map (\<lambda>v. (v + 2147483648) mod 4294967296 - 2147483648) label"

subsection \<open>The calls the orchestration makes\<close>

text \<open>
  The trace lists, in program order, the calls into the framework made by the notebook's
  functions: the model's forward pass, the loss function (with the value it returned),
  the gradient computation of \<^verbatim>\<open>ms.value_and_grad\<close>, the optimizer call, and the
  \<^verbatim>\<open>set_postfix\<close> calls on the progress bar with the values displayed.
\<close>

datatype event =
    Forward
  | Loss real
  | Backward
  | OptimizerStep
  | TrainPostfix real
  | EvalPostfix real real

text \<open>
  The mutable objects of the notebook: the model (its parameters, its training-mode flag
  set by \<^verbatim>\<open>set_train\<close>, the state of the random generator behind its dropout layers)
  and the optimizer's own state.
\<close>

record ('p, 'o) session =
  params :: 'p
  training :: bool
  seed :: nat
  opt_state :: 'o
  trace :: "event list"

text \<open>
  The framework's kernels are opaque and taken as parameters: the forward pass in
  inference mode, the forward pass in training mode (the only one that draws from the
  random generator, for dropout), the gradient of \<^verbatim>\<open>forward_fn\<close> with respect to the
  parameters, the update rule of the optimizer, and the accuracy metric.
\<close>

record ('p, 'g, 'o) kernels =
  infer :: "'p \<Rightarrow> nat list list \<Rightarrow> tensor2"
  stochastic :: "'p \<Rightarrow> nat \<Rightarrow> nat list list \<Rightarrow> tensor2 \<times> nat"
  backward :: "'p \<Rightarrow> bool \<Rightarrow> nat \<Rightarrow> nat list list \<Rightarrow> int list \<Rightarrow> 'g"
  adam :: "'o \<Rightarrow> 'p \<Rightarrow> 'g \<Rightarrow> 'o \<times> 'p"
  accuracy_fn :: "tensor2 \<Rightarrow> int list \<Rightarrow> real"

definition set_train :: "bool \<Rightarrow> ('p, 'o) session \<Rightarrow> ('p, 'o) session" where
  "set_train mode m = m\<lparr>training := mode\<rparr>"

definition emit :: "event \<Rightarrow> ('p, 'o) session \<Rightarrow> ('p, 'o) session" where
  "emit ev m = m\<lparr>trace := trace m @ [ev]\<rparr>"

text \<open>
  Modelled from the spec: the call \<^verbatim>\<open>model(data)\<close> runs the forward pass
  \<^verbatim>\<open>RNN.construct\<close>. The dropout layers of the encoder and of the embedding (modules
  that are not part of the notebook) are active in training mode only, so the forward
  pass of a model in inference mode is a function of the parameters and the input alone.
\<close>

definition model_call ::
  "('p, 'g, 'o) kernels \<Rightarrow> ('p, 'o) session \<Rightarrow> nat list list \<Rightarrow> tensor2 \<times> ('p, 'o) session" where
  "model_call K m data =
     (if training m
      then (let (logits, s) = stochastic K (params m) (seed m) data
            in (logits, emit Forward (m\<lparr>seed := s\<rparr>)))
      else (infer K (params m) data, emit Forward m))"

section \<open>Training\<close>

text \<open>
  \<^verbatim>\<open>
  def forward_fn(data, label):
      logits = model(data)
      loss = loss_fn(logits, label)
      return loss

  grad_fn = ms.value_and_grad(forward_fn, None, optimizer.parameters)

  def train_step(data, label):
      loss, grads = grad_fn(data, label)
      optimizer(grads)
      return loss
  \<close>
\<close>

definition forward_fn ::
  "('p, 'g, 'o) kernels \<Rightarrow> (tensor2 \<Rightarrow> int list \<Rightarrow> real) \<Rightarrow> ('p, 'o) session \<Rightarrow>
     nat list list \<Rightarrow> int list \<Rightarrow> real \<times> ('p, 'o) session" where
  "forward_fn K loss_fn m data label =
     (let (logits, m1) = model_call K m data;
          loss = loss_fn logits label
      in (loss, emit (Loss loss) m1))"

definition grad_fn ::
  "('p, 'g, 'o) kernels \<Rightarrow> (tensor2 \<Rightarrow> int list \<Rightarrow> real) \<Rightarrow> ('p, 'o) session \<Rightarrow>
     nat list list \<Rightarrow> int list \<Rightarrow> (real \<times> 'g) \<times> ('p, 'o) session" where
  "grad_fn K loss_fn m data label =
     (let (loss, m1) = forward_fn K loss_fn m data label;
          grads = backward K (params m) (training m) (seed m) data label
      in ((loss, grads), emit Backward m1))"

definition train_step ::
  "('p, 'g, 'o) kernels \<Rightarrow> (tensor2 \<Rightarrow> int list \<Rightarrow> real) \<Rightarrow> ('p, 'o) session \<Rightarrow>
     nat list list \<Rightarrow> int list \<Rightarrow> real \<times> ('p, 'o) session" where
  "train_step K loss_fn m data label =
     (let ((loss, grads), m1) = grad_fn K loss_fn m data label;
          (o', p') = adam K (opt_state m1) (params m1) grads
      in (loss, emit OptimizerStep (m1\<lparr>params := p', opt_state := o'\<rparr>)))"

text \<open>
  \<^verbatim>\<open>
  def train_one_epoch(model, train_dataset, epoch=0):
      model.set_train()
      total = train_dataset.get_dataset_size()
      loss_total = 0
      step_total = 0
      with tqdm(total=total) as t:
          t.set_description('Epoch %i' % epoch)
          for data, label in train_dataset.create_tuple_iterator():
              loss = train_step(data, label.astype(mindspore.int32))
              loss_total += loss.asnumpy()
              step_total += 1
              t.set_postfix(loss=loss_total/step_total)
              t.update(1)
  \<close>
  The function has no \<^verbatim>\<open>return\<close>: its result is the state it leaves behind.
\<close>

fun train_loop ::
  "('p, 'g, 'o) kernels \<Rightarrow> (tensor2 \<Rightarrow> int list \<Rightarrow> real) \<Rightarrow> batch list \<Rightarrow>
     ('p, 'o) session \<times> real \<times> nat \<Rightarrow> ('p, 'o) session \<times> real \<times> nat" where
  "train_loop K loss_fn [] acc = acc"
| "train_loop K loss_fn ((data, label) # rest) (m, loss_total, step_total) =
     (let (loss, m1) = train_step K loss_fn m data (astype_int32 label);
          loss_total' = loss_total + loss;
          step_total' = step_total + 1;
          m2 = emit (TrainPostfix (loss_total' / real step_total')) m1
      in train_loop K loss_fn rest (m2, loss_total', step_total'))"

definition train_one_epoch ::
  "('p, 'g, 'o) kernels \<Rightarrow> (tensor2 \<Rightarrow> int list \<Rightarrow> real) \<Rightarrow> ('p, 'o) session \<Rightarrow>
     dataset \<Rightarrow> nat \<Rightarrow> ('p, 'o) session" where
  "train_one_epoch K loss_fn model train_dataset epoch =
     (let m0 = set_train True model;
          total = get_dataset_size train_dataset
      in fst (train_loop K loss_fn (create_tuple_iterator train_dataset) (m0, 0, 0)))"

section \<open>Evaluation\<close>

text \<open>
  \<^verbatim>\<open>
  def evaluate(model, test_dataset, criterion, epoch=0):
      total = test_dataset.get_dataset_size()
      epoch_loss = 0
      epoch_acc = 0
      step_total = 0
      model.set_train(False)
      with tqdm(total=total) as t:
          t.set_description('Epoch %i' % epoch)
          for i in test_dataset.create_tuple_iterator():
              predictions = model(i[0])
              loss = criterion(predictions, i[1].astype(mindspore.int32))
              epoch_loss += loss.asnumpy()
              acc = accuracy_fn(predictions, i[1])
              epoch_acc += acc
              step_total += 1
              t.set_postfix(loss=epoch_loss/step_total, acc=epoch_acc/step_total)
              t.update(1)
      return epoch_loss / total
  \<close>
  The final division is unguarded. With no batch the loop body never runs, so
  \<^verbatim>\<open>epoch_loss\<close> and \<^verbatim>\<open>total\<close> are both the Python integer 0 and the division raises
  \<^verbatim>\<open>ZeroDivisionError\<close>. The result pairs what the call returns or raises with the state
  it leaves behind.
\<close>

fun evaluate_loop ::
  "('p, 'g, 'o) kernels \<Rightarrow> (tensor2 \<Rightarrow> int list \<Rightarrow> real) \<Rightarrow> batch list \<Rightarrow>
     ('p, 'o) session \<times> real \<times> real \<times> nat \<Rightarrow> ('p, 'o) session \<times> real \<times> real \<times> nat" where
  "evaluate_loop K criterion [] acc = acc"
| "evaluate_loop K criterion (i # rest) (m, epoch_loss, epoch_acc, step_total) =
     (let (predictions, m1) = model_call K m (fst i);
          loss = criterion predictions (astype_int32 (snd i));
          m2 = emit (Loss loss) m1;
          epoch_loss' = epoch_loss + loss;
          acc = accuracy_fn K predictions (snd i);
          epoch_acc' = epoch_acc + acc;
          step_total' = step_total + 1;
          m3 = emit (EvalPostfix (epoch_loss' / real step_total') (epoch_acc' / real step_total')) m2
      in evaluate_loop K criterion rest (m3, epoch_loss', epoch_acc', step_total'))"

definition evaluate ::
  "('p, 'g, 'o) kernels \<Rightarrow> ('p, 'o) session \<Rightarrow> dataset \<Rightarrow> (tensor2 \<Rightarrow> int list \<Rightarrow> real) \<Rightarrow>
     nat \<Rightarrow> (error + real) \<times> ('p, 'o) session" where
  "evaluate K model test_dataset criterion epoch =
     (let total = get_dataset_size test_dataset;
          m0 = set_train False model;
          (m1, epoch_loss, epoch_acc, step_total) =
             evaluate_loop K criterion (create_tuple_iterator test_dataset) (m0, 0, 0, 0)
      in (if total = 0 then Inl ZeroDivisionError else Inr (epoch_loss / real total), m1))"

section \<open>The epoch loop\<close>

text \<open>
  \<^verbatim>\<open>
  num_epochs = 5
  best_valid_loss = float('inf')

  for epoch in range(num_epochs):
      train_one_epoch(model, imdb_train, epoch)
      valid_loss = evaluate(model, imdb_valid, loss_fn, epoch)

      if valid_loss < best_valid_loss:
          best_valid_loss = valid_loss
          ms.save_checkpoint(model, './sentiment_analysis.ckpt')
  \<close>
  The tracked best value starts at \<^verbatim>\<open>float('inf')\<close> and is afterwards a loss value.
\<close>

datatype pyfloat = Fin real | PosInf

fun float_lt :: "real \<Rightarrow> pyfloat \<Rightarrow> bool" where
  "float_lt v PosInf = True"
| "float_lt v (Fin b) = (v < b)"

definition num_epochs :: nat where
  "num_epochs = 5"

definition ckpt_path :: string where
  "ckpt_path = ''./sentiment_analysis.ckpt''"

text \<open>
  The file system is a map from paths to the parameters stored there;
  \<^verbatim>\<open>ms.save_checkpoint\<close> replaces what the path held.
\<close>

definition save_checkpoint ::
  "('p, 'o) session \<Rightarrow> string \<Rightarrow> (string \<rightharpoonup> 'p) \<Rightarrow> (string \<rightharpoonup> 'p)" where
  "save_checkpoint model path fs = fs(path \<mapsto> params model)"

text \<open>
  The state of the loop: the model and optimizer, the tracked best value and the files.
  The \<open>history\<close> is an observation added to the model, not a variable of the notebook: at
  the end of each epoch it records the validation loss of the epoch, whether
  \<^verbatim>\<open>save_checkpoint\<close> was called, and the tracked best value, the model parameters and
  the contents of the checkpoint file as the epoch leaves them.
\<close>

record 'p report =
  rep_loss :: real
  rep_saved :: bool
  rep_best :: pyfloat
  rep_params :: 'p
  rep_ckpt :: "'p option"

record ('p, 'o) run =
  sess :: "('p, 'o) session"
  best_valid_loss :: pyfloat
  files :: "string \<rightharpoonup> 'p"
  history :: "'p report list"

definition note_epoch :: "real \<Rightarrow> bool \<Rightarrow> ('p, 'o) run \<Rightarrow> ('p, 'o) run" where
  "note_epoch valid_loss wrote r =
     r\<lparr>history := history r @
        [\<lparr>rep_loss = valid_loss, rep_saved = wrote, rep_best = best_valid_loss r,
          rep_params = params (sess r), rep_ckpt = files r ckpt_path\<rparr>]\<rparr>"

text \<open>An exception raised by \<^verbatim>\<open>evaluate\<close> ends the loop.\<close>

fun epoch_loop ::
  "('p, 'g, 'o) kernels \<Rightarrow> (tensor2 \<Rightarrow> int list \<Rightarrow> real) \<Rightarrow> dataset \<Rightarrow> dataset \<Rightarrow>
     nat list \<Rightarrow> ('p, 'o) run \<Rightarrow> error + ('p, 'o) run" where
  "epoch_loop K loss_fn imdb_train imdb_valid [] r = Inr r"
| "epoch_loop K loss_fn imdb_train imdb_valid (epoch # rest) r =
     (let m1 = train_one_epoch K loss_fn (sess r) imdb_train epoch
      in case evaluate K m1 imdb_valid loss_fn epoch of
           (Inl err, m2) \<Rightarrow> Inl err
         | (Inr valid_loss, m2) \<Rightarrow>
             if float_lt valid_loss (best_valid_loss r)
             then epoch_loop K loss_fn imdb_train imdb_valid rest
                    (note_epoch valid_loss True
                       (r\<lparr>sess := m2, best_valid_loss := Fin valid_loss,
                          files := save_checkpoint m2 ckpt_path (files r)\<rparr>))
             else epoch_loop K loss_fn imdb_train imdb_valid rest
                    (note_epoch valid_loss False (r\<lparr>sess := m2\<rparr>)))"

definition run_training ::
  "('p, 'g, 'o) kernels \<Rightarrow> (tensor2 \<Rightarrow> int list \<Rightarrow> real) \<Rightarrow> ('p, 'o) session \<Rightarrow>
     dataset \<Rightarrow> dataset \<Rightarrow> (string \<rightharpoonup> 'p) \<Rightarrow> error + ('p, 'o) run" where
  "run_training K loss_fn model imdb_train imdb_valid fs =
     epoch_loop K loss_fn imdb_train imdb_valid [0..<num_epochs]
       \<lparr>sess = model, best_valid_loss = PosInf, files = fs, history = []\<rparr>"

section \<open>Data preparation\<close>

text \<open>
  \<^verbatim>\<open>
  vocab = Vocab.from_pretrained(name="glove.6B.100d")
  lookup_op = Lookup(vocab, unk_token='<unk>')
  max_length = 256
  pad_op = PadTransform(max_length, pad_value=vocab('<pad>'))
  imdb_train = imdb_train.map([tokenizer, lookup_op, pad_op], 'text')
  \<close>
  The vocabulary maps token strings to ids. The tokenizer is opaque and taken as a
  parameter.
\<close>

definition max_length :: nat where
  "max_length = 256"

type_synonym vocab = "string \<rightharpoonup> nat"

text \<open>
  Modelled from the spec: \<^verbatim>\<open>PadTransform\<close> is a transform of the library that the
  notebook only calls. By the spec it pads or truncates a sequence to the maximum length,
  filling the remainder with the padding id.
\<close>

definition PadTransform :: "nat \<Rightarrow> nat \<Rightarrow> nat list \<Rightarrow> nat list" where
  "PadTransform max_len pad_value text_input =
     take max_len text_input @ replicate (max_len - length text_input) pad_value"

text \<open>
  Modelled from the spec: \<^verbatim>\<open>Lookup\<close> is a transform of the library that the notebook
  only calls. It maps each token to its id in the vocabulary and a token the vocabulary
  does not hold to the id of the unknown token. The spec's vocabulary includes the
  reserved unknown and padding ids; for a vocabulary without them the spec says nothing
  and the operations are not built (\<open>None\<close>).
\<close>

definition Lookup :: "vocab \<Rightarrow> string \<Rightarrow> (string list \<Rightarrow> nat list) option" where
  "Lookup vocab unk_token =
     (case vocab unk_token of
        None \<Rightarrow> None
      | Some unk \<Rightarrow> Some (map (\<lambda>token. case vocab token of None \<Rightarrow> unk | Some i \<Rightarrow> i)))"

definition lookup_op :: "vocab \<Rightarrow> (string list \<Rightarrow> nat list) option" where
  "lookup_op vocab = Lookup vocab ''<unk>''"

definition pad_op :: "vocab \<Rightarrow> (nat list \<Rightarrow> nat list) option" where
  "pad_op vocab =
     (case vocab ''<pad>'' of
        None \<Rightarrow> None
      | Some pad_value \<Rightarrow> Some (PadTransform max_length pad_value))"

text \<open>
  \<^verbatim>\<open>map\<close> applies the three operations in turn to the text column of every
  example and leaves the label as it is.
\<close>

definition map_text ::
  "(string \<Rightarrow> string list) \<Rightarrow> vocab \<Rightarrow> (string \<times> int) list \<Rightarrow> ((nat list \<times> int) list) option" where
  "map_text tokenizer vocab examples =
     (case (lookup_op vocab, pad_op vocab) of
        (Some look, Some pad) \<Rightarrow>
          Some (map (\<lambda>(text, label). (pad (look (tokenizer text)), label)) examples)
      | _ \<Rightarrow> None)"

section \<open>The classifier\<close>

text \<open>
  \<^verbatim>\<open>
  class RNN(nn.Module):
      def __init__(self, embedding, hidden_dim, output_dim, n_layers, bidirectional):
          super().__init__()
          embedding_dim = embedding._embed_dim
          self.embedding = embedding
          self.rnn = StaticLSTM(embedding_dim, hidden_dim, num_layers=n_layers,
                                bidirectional=bidirectional, batch_first=True, dropout=0.5)
          self.fc = nn.Dense(hidden_dim * 2, output_dim)

      def construct(self, inputs):
          embedded = self.embedding(inputs)
          _, (hidden, _) = self.rnn(embedded)
          hidden = ops.concat((hidden[-2, :, :], hidden[-1, :, :]), axis=1)
          output = self.fc(hidden)
          return output
  \<close>
  The embedding and the encoder are modules the notebook only constructs and calls: their
  records hold what the constructor is given, and their computations are parameters of
  \<open>construct\<close> (\<open>embed_fn\<close>, \<open>lstm_fn\<close>). The dense layer holds a weight matrix of shape (output, input) and a bias
  of length output; their entries are arbitrary, so a statement about a freshly
  constructed model covers the weights at any point of training.
\<close>

record Glove =
  embed_dim :: nat

record StaticLSTM =
  input_size :: nat
  hidden_size :: nat
  num_layers :: nat
  bidirectional :: bool
  batch_first :: bool
  dropout :: real

record Dense =
  in_channels :: nat
  out_channels :: nat
  weight :: tensor2
  bias :: "real list"

record RNN =
  embedding :: Glove
  rnn :: StaticLSTM
  fc :: Dense

definition Dense_init :: "nat \<Rightarrow> nat \<Rightarrow> (nat \<Rightarrow> nat \<Rightarrow> real) \<Rightarrow> (nat \<Rightarrow> real) \<Rightarrow> Dense" where
  "Dense_init n_in n_out weight_init bias_init =
     \<lparr>in_channels = n_in, out_channels = n_out,
      weight = map (\<lambda>i. map (weight_init i) [0..<n_in]) [0..<n_out],
      bias = map bias_init [0..<n_out]\<rparr>"

definition RNN_init ::
  "Glove \<Rightarrow> nat \<Rightarrow> nat \<Rightarrow> nat \<Rightarrow> bool \<Rightarrow> (nat \<Rightarrow> nat \<Rightarrow> real) \<Rightarrow> (nat \<Rightarrow> real) \<Rightarrow> RNN" where
  "RNN_init emb hidden_dim output_dim n_layers bidir weight_init bias_init =
     (let embedding_dim = embed_dim emb
      in \<lparr>embedding = emb,
          rnn = \<lparr>input_size = embedding_dim, hidden_size = hidden_dim, num_layers = n_layers,
                 bidirectional = bidir, batch_first = True, dropout = 0.5\<rparr>,
          fc = Dense_init (hidden_dim * 2) output_dim weight_init bias_init\<rparr>)"

text \<open>
  \<^verbatim>\<open>hidden[-k, :, :]\<close> raises when there are fewer than \<open>k\<close> slices;
  \<^verbatim>\<open>ops.concat\<close> along axis 1 needs the same number of rows on both sides; the dense
  layer needs rows of its input width.
\<close>

definition index_from_end :: "'a list \<Rightarrow> nat \<Rightarrow> error + 'a" where
  "index_from_end xs k =
     (if 0 < k \<and> k \<le> length xs then Inr (xs ! (length xs - k)) else Inl IndexError)"

definition concat_axis1 :: "tensor2 \<Rightarrow> tensor2 \<Rightarrow> error + tensor2" where
  "concat_axis1 a b = (if length a = length b then Inr (map2 (@) a b) else Inl ValueError)"

definition dense_apply :: "Dense \<Rightarrow> tensor2 \<Rightarrow> error + tensor2" where
  "dense_apply d x =
     (if list_all (\<lambda>row. length row = in_channels d) x
      then Inr (map (\<lambda>row. map2 (\<lambda>w b. sum_list (map2 (*) w row) + b) (weight d) (bias d)) x)
      else Inl ValueError)"

definition construct ::
  "(Glove \<Rightarrow> nat list list \<Rightarrow> tensor3) \<Rightarrow> (StaticLSTM \<Rightarrow> tensor3 \<Rightarrow> tensor3) \<Rightarrow> RNN \<Rightarrow>
     nat list list \<Rightarrow> error + tensor2" where
  "construct embed_fn lstm_fn self inputs =
     (let embedded = embed_fn (embedding self) inputs;
          hidden = lstm_fn (rnn self) embedded
      in case index_from_end hidden 2 of
           Inl e \<Rightarrow> Inl e
         | Inr h2 \<Rightarrow>
            (case index_from_end hidden 1 of
               Inl e \<Rightarrow> Inl e
             | Inr h1 \<Rightarrow>
                (case concat_axis1 h2 h1 of
                   Inl e \<Rightarrow> Inl e
                 | Inr hid \<Rightarrow> dense_apply (fc self) hid)))"

section \<open>Notions used in the statements\<close>

text \<open>The loss of one batch as \<^verbatim>\<open>evaluate\<close> computes it, in inference mode.\<close>

definition batch_loss ::
  "('p, 'g, 'o) kernels \<Rightarrow> (tensor2 \<Rightarrow> int list \<Rightarrow> real) \<Rightarrow> 'p \<Rightarrow> batch \<Rightarrow> real" where
  "batch_loss K criterion p i = criterion (infer K p (fst i)) (astype_int32 (snd i))"

text \<open>The calls that compute gradients or change parameters.\<close>

fun updates_params :: "event \<Rightarrow> bool" where
  "updates_params Backward = True"
| "updates_params OptimizerStep = True"
| "updates_params _ = False"

text \<open>
  The calls of one training step, given the loss it returned and the value it displayed,
  and the running means of a list of losses: the \<open>k\<close>-th is the total of the first
  \<open>k + 1\<close> losses (on top of a starting total) divided by the number of steps so far.
\<close>

definition step_events :: "real \<times> real \<Rightarrow> event list" where
  "step_events la = [Forward, Loss (fst la), Backward, OptimizerStep, TrainPostfix (snd la)]"

definition running_mean :: "real \<Rightarrow> nat \<Rightarrow> real list \<Rightarrow> real list" where
  "running_mean loss_total step_total ls =
     map (\<lambda>k. (loss_total + sum_list (take (Suc k) ls)) / real (step_total + Suc k)) [0..<length ls]"

text \<open>
  The training contract in the spec's words, on the parameters, the optimizer state and
  the dropout generator alone: one optimization step on a batch computes the forward
  output in training mode, the scalar loss against the batch's labels, the gradients with
  respect to the parameters, and applies the optimizer's update rule; an epoch makes one
  such step per batch, in order, and collects the losses for reporting.
\<close>

definition spec_step ::
  "('p, 'g, 'o) kernels \<Rightarrow> (tensor2 \<Rightarrow> int list \<Rightarrow> real) \<Rightarrow> 'p \<times> 'o \<times> nat \<Rightarrow> batch \<Rightarrow>
     real \<times> 'p \<times> 'o \<times> nat" where
  "spec_step K loss_fn c b =
     (case c of (p, opt, s) \<Rightarrow>
        (let label = astype_int32 (snd b);
             logits = fst (stochastic K p s (fst b));
             loss = loss_fn logits label;
             grads = backward K p True s (fst b) label
         in (loss, snd (adam K opt p grads), fst (adam K opt p grads),
             snd (stochastic K p s (fst b)))))"

fun spec_epoch ::
  "('p, 'g, 'o) kernels \<Rightarrow> (tensor2 \<Rightarrow> int list \<Rightarrow> real) \<Rightarrow> 'p \<times> 'o \<times> nat \<Rightarrow> batch list \<Rightarrow>
     real list \<times> 'p \<times> 'o \<times> nat" where
  "spec_epoch K loss_fn c [] = ([], c)"
| "spec_epoch K loss_fn c (b # bs) =
     (fst (spec_step K loss_fn c b) # fst (spec_epoch K loss_fn (snd (spec_step K loss_fn c b)) bs),
      snd (spec_epoch K loss_fn (snd (spec_step K loss_fn c b)) bs))"




text \<open>
  Shapes of nested lists, and the shape of the final hidden state the encoder returns:
  (layers \<open>\<times>\<close> directions, batch, hidden size).
\<close>

definition has_shape2 :: "nat \<Rightarrow> nat \<Rightarrow> tensor2 \<Rightarrow> bool" where
  "has_shape2 n k t = (length t = n \<and> list_all (\<lambda>row. length row = k) t)"

definition has_shape3 :: "nat \<Rightarrow> nat \<Rightarrow> nat \<Rightarrow> tensor3 \<Rightarrow> bool" where
  "has_shape3 d n k t = (length t = d \<and> list_all (has_shape2 n k) t)"

definition hidden_shape :: "StaticLSTM \<Rightarrow> nat \<Rightarrow> tensor3 \<Rightarrow> bool" where
  "hidden_shape cfg batch h =
     has_shape3 (num_layers cfg * (if bidirectional cfg then 2 else 1)) batch (hidden_size cfg) h"

section \<open>Example inputs\<close>

definition demo_kernels :: "(real, real, nat) kernels" where
  "demo_kernels =
     \<lparr>infer = (\<lambda>p data. [[p, real (length data)]]),
      stochastic = (\<lambda>p s data. ([[p + real s, real (length data)]], Suc s)),
      backward = (\<lambda>p t s data label. 1),
      adam = (\<lambda>k p g. (Suc k, p - g)),
      accuracy_fn = (\<lambda>y label. 1)\<rparr>"

definition demo_loss :: "tensor2 \<Rightarrow> int list \<Rightarrow> real" where
  "demo_loss logits label = \<bar>sum_list (map hd logits) - 2\<bar>"

definition demo_model :: "(real, nat) session" where
  "demo_model = \<lparr>params = 5, training = True, seed = 0, opt_state = 0, trace = []\<rparr>"

definition demo_start :: "(real, nat) session" where
  "demo_start = \<lparr>params = 8, training = False, seed = 0, opt_state = 0, trace = []\<rparr>"

definition demo_data :: dataset where
  "demo_data = [([[1, 2]], [0]), ([[3, 4]], [1])]"

definition demo_vocab :: vocab where
  "demo_vocab = [''<unk>'' \<mapsto> 0, ''<pad>'' \<mapsto> 1, ''good'' \<mapsto> 2, ''film'' \<mapsto> 3]"

definition demo_tokenizer :: "string \<Rightarrow> string list" where
  "demo_tokenizer text = (if text = ''good film'' then [''good'', ''film''] else [text])"

definition demo_examples :: "(string \<times> int) list" where
  "demo_examples = [(''good film'', 1), (''dull'', 0)]"

definition demo_embed :: "Glove \<Rightarrow> nat list list \<Rightarrow> tensor3" where
  "demo_embed g inputs = map (map (\<lambda>i. replicate (embed_dim g) (real i))) inputs"

definition demo_lstm :: "StaticLSTM \<Rightarrow> tensor3 \<Rightarrow> tensor3" where
  "demo_lstm cfg embedded =
     map (\<lambda>d. map (\<lambda>s. replicate (hidden_size cfg) (real d + sum_list (map sum_list s))) embedded)
       [0..<num_layers cfg * (if bidirectional cfg then 2 else 1)]"

section \<open>Evaluation: result, frame and determinism\<close>

lemma emit_fields [simp]:
  "params (emit ev m) = params m" "training (emit ev m) = training m"
  "seed (emit ev m) = seed m" "opt_state (emit ev m) = opt_state m"
  "trace (emit ev m) = trace m @ [ev]"
  by (simp_all add: emit_def)

lemma model_call_infer:
  "\<not> training m \<Longrightarrow> model_call K m data = (infer K (params m) data, emit Forward m)"
  by (simp add: model_call_def)

lemma model_call_frame:
  "model_call K m data = (y, m') \<Longrightarrow>
     params m' = params m \<and> training m' = training m \<and> opt_state m' = opt_state m \<and>
     trace m' = trace m @ [Forward]"
  by (auto simp: model_call_def split: if_splits prod.splits)

text \<open>
  In inference mode the loop adds the loss of each batch to the running total, counts the
  batches, and changes neither the parameters nor the dropout generator.
\<close>

lemma evaluate_loop_infer:
  "\<not> training m \<Longrightarrow> evaluate_loop K c bs (m, el, ea, st) = (m', el', ea', st') \<Longrightarrow>
     params m' = params m \<and> \<not> training m' \<and> seed m' = seed m \<and> opt_state m' = opt_state m \<and>
     el' = el + sum_list (map (batch_loss K c (params m)) bs) \<and> st' = st + length bs"
proof (induction bs arbitrary: m el ea st)
  case Nil
  then show ?case by simp
next
  case (Cons i rest)
  let ?loss = "batch_loss K c (params m) i"
  let ?m3 = "emit (EvalPostfix ((el + ?loss) / real (st + 1))
                 ((ea + accuracy_fn K (infer K (params m) (fst i)) (snd i)) / real (st + 1)))
               (emit (Loss ?loss) (emit Forward m))"
  from Cons.prems have step: "evaluate_loop K c rest
      (?m3, el + ?loss, ea + accuracy_fn K (infer K (params m) (fst i)) (snd i), st + 1) = (m', el', ea', st')"
    by (simp add: model_call_infer batch_loss_def Let_def)
  have "\<not> training ?m3" using Cons.prems(1) by simp
  from Cons.IH [OF this step] show ?case by (simp add: add.assoc)
qed

lemma evaluate_loop_frame:
  "evaluate_loop K c bs (m, el, ea, st) = (m', el', ea', st') \<Longrightarrow>
     params m' = params m \<and> training m' = training m \<and> opt_state m' = opt_state m \<and>
     (\<exists>evs. trace m' = trace m @ evs \<and> filter updates_params evs = [])"
proof (induction bs arbitrary: m el ea st)
  case Nil
  then show ?case by simp
next
  case (Cons i rest)
  obtain y m1 where mc: "model_call K m (fst i) = (y, m1)" by (cases "model_call K m (fst i)")
  note f1 = model_call_frame [OF mc]
  let ?loss = "c y (astype_int32 (snd i))"
  let ?m3 = "emit (EvalPostfix ((el + ?loss) / real (st + 1))
                 ((ea + accuracy_fn K y (snd i)) / real (st + 1))) (emit (Loss ?loss) m1)"
  from Cons.prems mc have step: "evaluate_loop K c rest
      (?m3, el + ?loss, ea + accuracy_fn K y (snd i), st + 1) = (m', el', ea', st')"
    by (simp add: Let_def)
  from Cons.IH [OF step] obtain evs where
    a: "params m' = params ?m3" "training m' = training ?m3" "opt_state m' = opt_state ?m3"
    and b: "trace m' = trace ?m3 @ evs" "filter updates_params evs = []"
    by blast
  have "trace m' = trace m @ ([Forward, Loss ?loss, EvalPostfix ((el + ?loss) / real (st + 1))
                 ((ea + accuracy_fn K y (snd i)) / real (st + 1))] @ evs)"
    using b(1) f1 by simp
  moreover have "filter updates_params ([Forward, Loss ?loss, EvalPostfix ((el + ?loss) / real (st + 1))
                 ((ea + accuracy_fn K y (snd i)) / real (st + 1))] @ evs) = []"
    using b(2) by simp
  ultimately show ?case using a f1 by (simp del: append.simps)
qed

lemma evaluate_result:
  "fst (evaluate K model ds criterion epoch) =
     (if ds = [] then Inl ZeroDivisionError
      else Inr (sum_list (map (batch_loss K criterion (params model)) ds) / real (length ds)))"
proof -
  obtain m' el' ea' st' where
    l: "evaluate_loop K criterion ds (set_train False model, 0, 0, 0) = (m', el', ea', st')"
    by (cases "evaluate_loop K criterion ds (set_train False model, 0, 0, 0)") auto
  have "\<not> training (set_train False model)" by (simp add: set_train_def)
  from evaluate_loop_infer [OF this l]
  have "el' = sum_list (map (batch_loss K criterion (params model)) ds)"
    by (simp add: set_train_def)
  then show ?thesis
    by (simp add: evaluate_def get_dataset_size_def create_tuple_iterator_def l)
qed

lemma evaluate_state:
  "params (snd (evaluate K model ds criterion epoch)) = params model \<and>
   training (snd (evaluate K model ds criterion epoch)) = False \<and>
   opt_state (snd (evaluate K model ds criterion epoch)) = opt_state model \<and>
   seed (snd (evaluate K model ds criterion epoch)) = seed model \<and>
   (\<exists>evs. trace (snd (evaluate K model ds criterion epoch)) = trace model @ evs \<and>
      filter updates_params evs = [])"
proof -
  obtain m' el' ea' st' where
    l: "evaluate_loop K criterion ds (set_train False model, 0, 0, 0) = (m', el', ea', st')"
    by (cases "evaluate_loop K criterion ds (set_train False model, 0, 0, 0)") auto
  have nt: "\<not> training (set_train False model)" by (simp add: set_train_def)
  have s: "snd (evaluate K model ds criterion epoch) = m'"
    by (simp add: evaluate_def get_dataset_size_def create_tuple_iterator_def l)
  from evaluate_loop_infer [OF nt l] evaluate_loop_frame [OF l] show ?thesis
    unfolding s by (simp add: set_train_def)
qed

text \<open>
  C2. On a non-empty sequence of batches \<^verbatim>\<open>evaluate\<close> returns the mean loss: the sum of
  the per-batch loss values (the criterion applied to the inference-mode forward pass of
  each batch) divided by the number of batches the dataset reports.
\<close>

theorem evaluate_mean_loss:
  assumes "test_dataset \<noteq> []"
  shows "fst (evaluate K model test_dataset criterion epoch) =
       Inr (sum_list (map (batch_loss K criterion (params model)) (create_tuple_iterator test_dataset))
              / real (get_dataset_size test_dataset))"
proof -
  have "fst (evaluate K model test_dataset criterion epoch) =
        Inr (sum_list (map (batch_loss K criterion (params model)) test_dataset)
               / real (length test_dataset))"
    using assms by (simp add: evaluate_result)
  then show ?thesis
    by (simp add: get_dataset_size_def create_tuple_iterator_def)
qed

theorem evaluate_mean_loss_witness:
  "demo_data \<noteq> [] \<and> fst (evaluate demo_kernels demo_model demo_data demo_loss 0) = Inr 3"
  using evaluate_mean_loss [of demo_data demo_kernels demo_model demo_loss 0]
  by (simp add: demo_data_def demo_kernels_def demo_model_def demo_loss_def batch_loss_def
        get_dataset_size_def create_tuple_iterator_def)

text \<open>
  C9. The division by the batch count is unguarded: \<^verbatim>\<open>evaluate\<close> returns a value exactly
  when the batch sequence is non-empty, and raises \<^verbatim>\<open>ZeroDivisionError\<close> exactly when
  the dataset reports zero batches.
\<close>

theorem evaluate_zero_division:
  "((\<exists>v. fst (evaluate K model test_dataset criterion epoch) = Inr v) = (test_dataset \<noteq> [])) \<and>
   ((fst (evaluate K model test_dataset criterion epoch) = Inl ZeroDivisionError)
      = (get_dataset_size test_dataset = 0)) \<and>
   fst (evaluate K model [] criterion epoch) = Inl ZeroDivisionError"
proof (cases "test_dataset = []")
  case True
  then show ?thesis by (simp add: evaluate_result get_dataset_size_def)
next
  case False
  then have "fst (evaluate K model test_dataset criterion epoch) =
        Inr (sum_list (map (batch_loss K criterion (params model)) test_dataset)
               / real (length test_dataset))"
    by (simp add: evaluate_result)
  with False show ?thesis by (simp add: evaluate_result get_dataset_size_def)
qed

text \<open>
  C3. \<^verbatim>\<open>evaluate\<close> leaves the model parameters (and the optimizer state) as they were:
  the calls it adds to the trace contain no gradient computation and no optimizer step.
\<close>

theorem evaluate_keeps_parameters:
  "params (snd (evaluate K model test_dataset criterion epoch)) = params model \<and>
   opt_state (snd (evaluate K model test_dataset criterion epoch)) = opt_state model \<and>
   (\<exists>evs. trace (snd (evaluate K model test_dataset criterion epoch)) = trace model @ evs \<and>
      filter updates_params evs = [])"
  using evaluate_state [of K model test_dataset criterion epoch] by blast

text \<open>
  C4. Two runs of \<^verbatim>\<open>evaluate\<close> on the same batch sequence return the same result when
  the parameters did not change between them, whatever happened to the training-mode
  flag, the dropout generator, the optimizer state or the epoch number in between.
\<close>

theorem evaluate_deterministic:
  assumes "params m2 = params (snd (evaluate K m1 ds criterion e1))"
  shows "fst (evaluate K m2 ds criterion e2) = fst (evaluate K m1 ds criterion e1)"
proof -
  from evaluate_state [of K m1 ds criterion e1] assms have "params m2 = params m1"
    by simp
  then show ?thesis by (simp add: evaluate_result)
qed

theorem evaluate_deterministic_witness:
  "fst (evaluate demo_kernels
          ((snd (evaluate demo_kernels demo_model demo_data demo_loss 0))\<lparr>training := True, seed := 7\<rparr>)
          demo_data demo_loss 1)
     = fst (evaluate demo_kernels demo_model demo_data demo_loss 0)"
  using evaluate_deterministic [of
      "(snd (evaluate demo_kernels demo_model demo_data demo_loss 0))\<lparr>training := True, seed := 7\<rparr>"
      demo_kernels demo_model demo_data demo_loss 0 1]
  by simp

section \<open>Training: one optimization step per batch\<close>

lemma running_mean_Cons:
  "running_mean lt st (l # ls) = (lt + l) / real (Suc st) # running_mean (lt + l) (Suc st) ls"
proof -
  have "[0..<length (l # ls)] = 0 # map Suc [0..<length ls]"
    by (simp add: upt_conv_Cons map_Suc_upt del: upt_Suc)
  then show ?thesis
    by (simp add: running_mean_def comp_def add.assoc del: upt_Suc)
qed

lemma train_step_frame:
  "train_step K lf m data label = (loss, m') \<Longrightarrow>
     training m' = training m \<and>
     trace m' = trace m @ [Forward, Loss loss, Backward, OptimizerStep]"
  by (auto simp: train_step_def grad_fn_def forward_fn_def model_call_def Let_def
           split: if_splits prod.splits)

lemma train_loop_trace:
  "train_loop K lf bs (m, lt, st) = (m', lt', st') \<Longrightarrow>
     training m' = training m \<and>
     (\<exists>ls. length ls = length bs \<and>
        trace m' = trace m @ concat (map step_events (zip ls (running_mean lt st ls))))"
proof (induction bs arbitrary: m lt st)
  case Nil
  then show ?case by simp
next
  case (Cons b rest)
  obtain data label where b: "b = (data, label)" by (cases b)
  obtain loss m1 where ts: "train_step K lf m data (astype_int32 label) = (loss, m1)"
    by (cases "train_step K lf m data (astype_int32 label)")
  note f = train_step_frame [OF ts]
  let ?m2 = "emit (TrainPostfix ((lt + loss) / real (st + 1))) m1"
  from Cons.prems b ts have step: "train_loop K lf rest (?m2, lt + loss, st + 1) = (m', lt', st')"
    by (simp add: Let_def)
  from Cons.IH [OF step] obtain ls where
    a: "training m' = training ?m2" "length ls = length rest"
    and t: "trace m' = trace ?m2 @ concat (map step_events (zip ls (running_mean (lt + loss) (st + 1) ls)))"
    by blast
  have "trace m' = trace m @ concat (map step_events (zip (loss # ls) (running_mean lt st (loss # ls))))"
    using t f by (simp add: running_mean_Cons step_events_def)
  moreover have "length (loss # ls) = length (b # rest)" using a by simp
  moreover have "training m' = training m" using a f by simp
  ultimately show ?case by blast
qed

lemma count_step_events:
  "length las = n \<Longrightarrow> length (filter (\<lambda>ev. ev = OptimizerStep) (concat (map step_events las))) = n"
  by (induction las arbitrary: n) (auto simp: step_events_def)

lemma train_one_epoch_training:
  "training (train_one_epoch K lf model ds epoch) = True"
proof -
  obtain m' lt' st' where
    l: "train_loop K lf ds (set_train True model, 0, 0) = (m', lt', st')"
    by (cases "train_loop K lf ds (set_train True model, 0, 0)") auto
  have "train_one_epoch K lf model ds epoch = m'"
    by (simp add: train_one_epoch_def create_tuple_iterator_def l)
  with train_loop_trace [OF l] show ?thesis
    by (simp add: set_train_def)
qed

text \<open>
  C10. \<^verbatim>\<open>evaluate\<close> leaves the parameters unchanged but sets the training-mode flag to
  False and leaves it False on return; the next \<^verbatim>\<open>train_one_epoch\<close> sets it to True.
\<close>

theorem evaluate_leaves_inference_mode:
  "training (snd (evaluate K model test_dataset criterion epoch)) = False \<and>
   params (snd (evaluate K model test_dataset criterion epoch)) = params model \<and>
   training (train_one_epoch K loss_fn (snd (evaluate K model test_dataset criterion epoch))
               train_dataset epoch') = True"
  using evaluate_state [of K model test_dataset criterion epoch]
  by (simp add: train_one_epoch_training)

lemma train_step_spec:
  assumes "training m"
  shows "train_step K lf m data (astype_int32 label) =
           (fst (spec_step K lf (params m, opt_state m, seed m) (data, label)),
            snd (train_step K lf m data (astype_int32 label))) \<and>
         (params (snd (train_step K lf m data (astype_int32 label))),
          opt_state (snd (train_step K lf m data (astype_int32 label))),
          seed (snd (train_step K lf m data (astype_int32 label))))
           = snd (spec_step K lf (params m, opt_state m, seed m) (data, label))"
  using assms
  by (simp add: train_step_def grad_fn_def forward_fn_def model_call_def spec_step_def Let_def
        split: prod.splits)

lemma train_loop_spec:
  assumes "training m" and "train_loop K lf bs (m, lt, st) = (m', lt', st')"
  shows "(params m', opt_state m', seed m')
           = snd (spec_epoch K lf (params m, opt_state m, seed m) bs) \<and>
         trace m' = trace m @
           concat (map step_events
             (zip (fst (spec_epoch K lf (params m, opt_state m, seed m) bs))
                  (running_mean lt st (fst (spec_epoch K lf (params m, opt_state m, seed m) bs))))) \<and>
         length (fst (spec_epoch K lf (params m, opt_state m, seed m) bs)) = length bs"
  using assms
proof (induction bs arbitrary: m lt st)
  case Nil
  then show ?case by simp
next
  case (Cons b rest)
  obtain data label where b: "b = (data, label)" by (cases b)
  obtain loss m1 where ts: "train_step K lf m data (astype_int32 label) = (loss, m1)"
    by (cases "train_step K lf m data (astype_int32 label)")
  let ?c = "(params m, opt_state m, seed m)"
  from train_step_spec [OF Cons.prems(1), of K lf data label] ts
  have loss: "loss = fst (spec_step K lf ?c b)"
    and core: "(params m1, opt_state m1, seed m1) = snd (spec_step K lf ?c b)"
    by (simp_all add: b)
  note f = train_step_frame [OF ts]
  let ?m2 = "emit (TrainPostfix ((lt + loss) / real (st + 1))) m1"
  have tr: "training ?m2" using f Cons.prems(1) by simp
  from Cons.prems(2) b ts have step: "train_loop K lf rest (?m2, lt + loss, st + 1) = (m', lt', st')"
    by (simp add: Let_def)
  have c2: "(params ?m2, opt_state ?m2, seed ?m2) = snd (spec_step K lf ?c b)"
    using core by simp
  let ?ls = "fst (spec_epoch K lf (snd (spec_step K lf ?c b)) rest)"
  from Cons.IH [OF tr step] have
    a: "(params m', opt_state m', seed m') = snd (spec_epoch K lf (snd (spec_step K lf ?c b)) rest)"
    and t: "trace m' = trace ?m2 @
              concat (map step_events (zip ?ls (running_mean (lt + loss) (st + 1) ?ls)))"
    and n: "length ?ls = length rest"
    unfolding c2 by simp_all
  have e: "spec_epoch K lf ?c (b # rest) =
             (loss # ?ls, snd (spec_epoch K lf (snd (spec_step K lf ?c b)) rest))"
    by (simp add: loss)
  have "trace m' = trace m @
          concat (map step_events (zip (loss # ?ls) (running_mean lt st (loss # ?ls))))"
    using t f by (simp add: running_mean_Cons step_events_def)
  with a n show ?case unfolding e by simp
qed

text \<open>
  C5. One training epoch is one optimization step per batch, in order: its parameters,
  optimizer state and dropout generator at the end are those of the spec's epoch on the
  batches, and the calls it makes are, for each batch in turn, forward pass, loss (with
  the loss of that step), gradient, optimizer step, and then a report of the running
  total divided by the number of steps so far. There is one optimizer step per batch.
  Each step returns the loss of the forward pass on the parameters before the update and
  applies the optimizer's rule to the gradient taken at those parameters. The function
  returns nothing but the state it leaves behind, in training mode.
\<close>

theorem train_one_epoch_steps:
  "(params (train_one_epoch K loss_fn model train_dataset epoch),
    opt_state (train_one_epoch K loss_fn model train_dataset epoch),
    seed (train_one_epoch K loss_fn model train_dataset epoch))
     = snd (spec_epoch K loss_fn (params model, opt_state model, seed model)
              (create_tuple_iterator train_dataset)) \<and>
   trace (train_one_epoch K loss_fn model train_dataset epoch) =
     trace model @
     concat (map step_events
       (zip (fst (spec_epoch K loss_fn (params model, opt_state model, seed model)
                    (create_tuple_iterator train_dataset)))
            (running_mean 0 0
               (fst (spec_epoch K loss_fn (params model, opt_state model, seed model)
                       (create_tuple_iterator train_dataset)))))) \<and>
   length (fst (spec_epoch K loss_fn (params model, opt_state model, seed model)
                  (create_tuple_iterator train_dataset)))
     = get_dataset_size train_dataset \<and>
   length (filter (\<lambda>ev. ev = OptimizerStep)
             (drop (length (trace model))
                (trace (train_one_epoch K loss_fn model train_dataset epoch))))
     = get_dataset_size train_dataset \<and>
   training (train_one_epoch K loss_fn model train_dataset epoch) = True \<and>
   fst (train_step K loss_fn m data label) = loss_fn (fst (model_call K m data)) label \<and>
   (opt_state (snd (train_step K loss_fn m data label)),
    params (snd (train_step K loss_fn m data label)))
     = adam K (opt_state m) (params m) (backward K (params m) (training m) (seed m) data label)"
proof -
  let ?c = "(params model, opt_state model, seed model)"
  let ?ls = "fst (spec_epoch K loss_fn ?c train_dataset)"
  let ?T = "train_one_epoch K loss_fn model train_dataset epoch"
  obtain m' lt' st' where
    l: "train_loop K loss_fn train_dataset (set_train True model, 0, 0) = (m', lt', st')"
    by (cases "train_loop K loss_fn train_dataset (set_train True model, 0, 0)") auto
  have r: "?T = m'"
    by (simp add: train_one_epoch_def create_tuple_iterator_def l)
  have tr: "training (set_train True model)" by (simp add: set_train_def)
  from train_loop_spec [OF tr l] have
    core: "(params m', opt_state m', seed m') = snd (spec_epoch K loss_fn ?c train_dataset)"
    and t: "trace m' = trace model @ concat (map step_events (zip ?ls (running_mean 0 0 ?ls)))"
    and n: "length ?ls = length train_dataset"
    by (simp_all add: set_train_def)
  have "length (zip ?ls (running_mean 0 0 ?ls)) = length train_dataset"
    using n by (simp add: running_mean_def)
  from count_step_events [OF this] t
  have cnt: "length (filter (\<lambda>ev. ev = OptimizerStep) (drop (length (trace model)) (trace m')))
               = length train_dataset"
    by simp
  have step: "fst (train_step K loss_fn m data label) = loss_fn (fst (model_call K m data)) label \<and>
   (opt_state (snd (train_step K loss_fn m data label)),
    params (snd (train_step K loss_fn m data label)))
     = adam K (opt_state m) (params m) (backward K (params m) (training m) (seed m) data label)"
    by (auto simp: train_step_def grad_fn_def forward_fn_def model_call_def Let_def
             split: prod.splits)
  from core t n cnt step train_one_epoch_training [of K loss_fn model train_dataset epoch]
  show ?thesis
    unfolding r get_dataset_size_def create_tuple_iterator_def by simp
qed

text \<open>One epoch on the example data, step by step.\<close>

lemma train_demo:
  "trace (train_one_epoch demo_kernels demo_loss demo_model demo_data 0) =
     [Forward, Loss 3, Backward, OptimizerStep, TrainPostfix 3,
      Forward, Loss 3, Backward, OptimizerStep, TrainPostfix 3] \<and>
   params (train_one_epoch demo_kernels demo_loss demo_model demo_data 0) = 3 \<and>
   opt_state (train_one_epoch demo_kernels demo_loss demo_model demo_data 0) = 2 \<and>
   seed (train_one_epoch demo_kernels demo_loss demo_model demo_data 0) = 2 \<and>
   spec_epoch demo_kernels demo_loss (5, 0, 0) demo_data = ([3, 3], 3, 2, 2)"
  by (simp add: train_one_epoch_def create_tuple_iterator_def demo_kernels_def demo_loss_def
        demo_model_def demo_data_def set_train_def train_step_def grad_fn_def forward_fn_def
        model_call_def Let_def emit_def astype_int32_def spec_step_def)

section \<open>Checkpointing on improvement\<close>











text \<open>
  On the example data the validation losses of the five epochs are 4, 2, 0, 2, 4: the
  first three epochs write the checkpoint, the last two do not. With no validation batch
  the first evaluation raises and nothing is written.
\<close>

lemma demo_run:
  "\<exists>r. run_training demo_kernels demo_loss demo_start demo_data demo_data Map.empty = Inr r \<and>
     map rep_loss (history r) = [4, 2, 0, 2, 4] \<and>
     map rep_saved (history r) = [True, True, True, False, False] \<and>
     files r ckpt_path = Some 2"
  by (simp add: run_training_def num_epochs_def upt_conv_Cons
        train_one_epoch_def evaluate_def get_dataset_size_def create_tuple_iterator_def
        demo_kernels_def demo_loss_def demo_start_def demo_data_def set_train_def
        train_step_def grad_fn_def forward_fn_def model_call_def Let_def emit_def
        astype_int32_def note_epoch_def save_checkpoint_def)

lemma run_training_no_validation_batches:
  "run_training K loss_fn model imdb_train [] fs = Inl ZeroDivisionError"
proof -
  let ?m1 = "train_one_epoch K loss_fn model imdb_train 0"
  have "fst (evaluate K ?m1 [] loss_fn 0) = Inl ZeroDivisionError"
    by (simp add: evaluate_result)
  then obtain m2 where "evaluate K ?m1 [] loss_fn 0 = (Inl ZeroDivisionError, m2)"
    by (cases "evaluate K ?m1 [] loss_fn 0") auto
  then show ?thesis
    by (simp add: run_training_def num_epochs_def upt_conv_Cons Let_def)
qed

section \<open>Padding and shapes\<close>

lemma length_PadTransform: "length (PadTransform n p xs) = n"
  by (simp add: PadTransform_def)

lemma PadTransform_truncates:
  "max_len \<le> length ids \<Longrightarrow> PadTransform max_len pad_value ids = take max_len ids"
  by (simp add: PadTransform_def)

text \<open>
  C6. Padding a token-id sequence shorter than the maximum length gives a sequence of
  exactly 256 ids: the original sequence, followed by the id of \<^verbatim>\<open><pad>\<close> only.
\<close>

theorem pad_short_sequence:
  assumes "vocab ''<pad>'' = Some pad_id" and "length ids < max_length"
  shows "\<exists>pad. pad_op vocab = Some pad \<and> length (pad ids) = 256 \<and>
           take (length ids) (pad ids) = ids \<and>
           drop (length ids) (pad ids) = replicate (256 - length ids) pad_id"
proof -
  let ?pad = "PadTransform max_length pad_id"
  from assms(1) have op: "pad_op vocab = Some ?pad"
    by (simp add: pad_op_def)
  have len: "length (?pad ids) = 256"
    by (simp add: length_PadTransform max_length_def)
  from assms(2) have body: "?pad ids = ids @ replicate (256 - length ids) pad_id"
    by (simp add: PadTransform_def max_length_def)
  have "take (length ids) (?pad ids) = ids" "drop (length ids) (?pad ids) = replicate (256 - length ids) pad_id"
    unfolding body by simp_all
  with op len show ?thesis by blast
qed

theorem pad_short_sequence_witness:
  "demo_vocab ''<pad>'' = Some 1 \<and> length [2, 3 :: nat] < max_length \<and>
   (\<exists>pad. pad_op demo_vocab = Some pad \<and> length (pad [2, 3]) = 256 \<and>
      take (length [2, 3 :: nat]) (pad [2, 3]) = [2, 3] \<and>
      drop (length [2, 3 :: nat]) (pad [2, 3]) = replicate (256 - length [2, 3 :: nat]) 1)"
proof -
  have a: "demo_vocab ''<pad>'' = Some 1" by (simp add: demo_vocab_def)
  have b: "length [2, 3 :: nat] < max_length" by (simp add: max_length_def)
  from pad_short_sequence [of demo_vocab 1 "[2, 3]", OF a b] a b show ?thesis by blast
qed

text \<open>
  C7. Every mapped example has a token-id sequence of exactly the maximum length,
  whatever the tokenizer returns (short sequences are padded, long ones truncated), and
  the encoder is constructed with the embedding's dimensionality as its input width.
\<close>

theorem equal_length_and_width:
  assumes "vocab ''<pad>'' = Some pad_id" and "vocab ''<unk>'' = Some unk_id"
  shows "(\<exists>mapped. map_text tokenizer vocab examples = Some mapped \<and>
            length mapped = length examples \<and>
            (\<forall>ex \<in> set mapped. length (fst ex) = max_length)) \<and>
         input_size (rnn (RNN_init emb hidden_dim output_dim n_layers bidir weight_init bias_init))
           = embed_dim emb"
proof -
  let ?look = "map (\<lambda>token. case vocab token of None \<Rightarrow> unk_id | Some i \<Rightarrow> i)"
  let ?pad = "PadTransform max_length pad_id"
  let ?mapped = "map (\<lambda>(text, label). (?pad (?look (tokenizer text)), label)) examples"
  from assms have "map_text tokenizer vocab examples = Some ?mapped"
    by (simp add: map_text_def lookup_op_def Lookup_def pad_op_def)
  moreover have "length ?mapped = length examples" by simp
  moreover have "\<forall>ex \<in> set ?mapped. length (fst ex) = max_length"
    by (auto simp: length_PadTransform)
  moreover have
    "input_size (rnn (RNN_init emb hidden_dim output_dim n_layers bidir weight_init bias_init))
       = embed_dim emb"
    by (simp add: RNN_init_def)
  ultimately show ?thesis by blast
qed

theorem equal_length_and_width_witness:
  "demo_vocab ''<pad>'' = Some 1 \<and> demo_vocab ''<unk>'' = Some 0 \<and>
   (\<exists>mapped. map_text demo_tokenizer demo_vocab demo_examples = Some mapped \<and>
      length mapped = length demo_examples \<and>
      list_all (\<lambda>ex. length (fst ex) = max_length) mapped) \<and>
   input_size (rnn (RNN_init \<lparr>embed_dim = 100\<rparr> 256 2 2 True (\<lambda>i j. 1) (\<lambda>i. 0))) = 100"
proof -
  have a: "demo_vocab ''<pad>'' = Some 1" by (simp add: demo_vocab_def)
  have b: "demo_vocab ''<unk>'' = Some 0" by (simp add: demo_vocab_def)
  from equal_length_and_width [of demo_vocab 1 0 demo_tokenizer demo_examples
      "\<lparr>embed_dim = 100\<rparr>" 256 2 2 True "\<lambda>i j. 1" "\<lambda>i. 0", OF a b] a b
  show ?thesis by (simp add: list_all_iff)
qed

text \<open>The pipeline on two examples: one token sequence of length two, one unknown token.\<close>

lemma demo_map_text:
  "map_text demo_tokenizer demo_vocab demo_examples =
     Some [([2, 3] @ replicate 254 1, 1), (0 # replicate 255 1, 0)]"
  by (simp add: map_text_def lookup_op_def Lookup_def pad_op_def PadTransform_def
        max_length_def demo_tokenizer_def demo_vocab_def demo_examples_def)

lemma index_from_end_shape:
  assumes "has_shape3 d n k h" and "0 < j" and "j \<le> d"
  shows "\<exists>x. index_from_end h j = Inr x \<and> has_shape2 n k x"
proof -
  from assms have len: "length h = d" and all: "list_all (has_shape2 n k) h"
    by (simp_all add: has_shape3_def)
  from assms len have "length h - j < length h" by simp
  with all have "has_shape2 n k (h ! (length h - j))"
    by (simp add: list_all_length)
  with assms len show ?thesis by (simp add: index_from_end_def)
qed

lemma concat_axis1_shape:
  assumes "has_shape2 n k a" and "has_shape2 n k' b"
  shows "\<exists>c. concat_axis1 a b = Inr c \<and> has_shape2 n (k + k') c"
  using assms
  by (auto simp: concat_axis1_def has_shape2_def list_all_length)

lemma dense_apply_shape:
  assumes "has_shape2 n n_in x"
  shows "\<exists>y. dense_apply (Dense_init n_in n_out weight_init bias_init) x = Inr y \<and>
              has_shape2 n n_out y"
  using assms
  by (auto simp: dense_apply_def Dense_init_def has_shape2_def list_all_length)

lemma index_from_end_value:
  "0 < k \<Longrightarrow> k \<le> length xs \<Longrightarrow> index_from_end xs k = Inr (xs ! (length xs - k))"
  by (simp add: index_from_end_def)

lemma Dense_init_shape:
  "has_shape2 n_out n_in (weight (Dense_init n_in n_out weight_init bias_init)) \<and>
   length (bias (Dense_init n_in n_out weight_init bias_init)) = n_out"
  by (simp add: Dense_init_def has_shape2_def list_all_iff)

text \<open>
  C8. For a bidirectional model with at least one layer and a batch of \<open>b\<close> sequences,
  when the encoder returns a final hidden state of its shape, the forward pass returns
  the logits computed as follows, and they have shape (\<open>b\<close>, number of classes): the
  last two slices of the hidden state (the final layer's forward and backward states)
  are concatenated row by row to width twice the hidden size, and every row goes through
  the dense layer, whose weight has shape (number of classes, twice the hidden size).
\<close>

theorem construct_logits_shape:
  assumes "0 < n_layers"
    and "self = RNN_init emb hidden_dim output_dim n_layers True weight_init bias_init"
    and "hidden = lstm_fn (rnn self) (embed_fn (embedding self) inputs)"
    and "hidden_shape (rnn self) (length inputs) hidden"
  shows "\<exists>h2 h1 hid logits.
           index_from_end hidden 2 = Inr h2 \<and> h2 = hidden ! (2 * n_layers - 2) \<and>
           index_from_end hidden 1 = Inr h1 \<and> h1 = hidden ! (2 * n_layers - 1) \<and>
           concat_axis1 h2 h1 = Inr hid \<and> hid = map2 (@) h2 h1 \<and>
           has_shape2 (length inputs) (2 * hidden_dim) hid \<and>
           has_shape2 output_dim (2 * hidden_dim) (weight (fc self)) \<and>
           length (bias (fc self)) = output_dim \<and>
           dense_apply (fc self) hid = Inr logits \<and>
           logits = map (\<lambda>row. map2 (\<lambda>w b. sum_list (map2 (*) w row) + b)
                                   (weight (fc self)) (bias (fc self))) hid \<and>
           construct embed_fn lstm_fn self inputs = Inr logits \<and>
           has_shape2 (length inputs) output_dim logits"
proof -
  have cfg: "hidden_size (rnn self) = hidden_dim" "num_layers (rnn self) = n_layers"
    "bidirectional (rnn self)"
    "fc self = Dense_init (hidden_dim * 2) output_dim weight_init bias_init"
    using assms(2) by (simp_all add: RNN_init_def)
  from assms(4) have sh: "has_shape3 (n_layers * 2) (length inputs) hidden_dim hidden"
    by (simp add: hidden_shape_def cfg)
  then have len: "length hidden = 2 * n_layers" by (simp add: has_shape3_def)
  from assms(1) have two: "2 \<le> n_layers * 2" "1 \<le> n_layers * 2" by simp_all
  define h2 where "h2 = hidden ! (2 * n_layers - 2)"
  define h1 where "h1 = hidden ! (2 * n_layers - 1)"
  have i2: "index_from_end hidden 2 = Inr h2"
    using index_from_end_value [of 2 hidden] two len by (simp add: h2_def)
  have i1: "index_from_end hidden 1 = Inr h1"
    using index_from_end_value [of 1 hidden] two len by (simp add: h1_def)
  from index_from_end_shape [OF sh _ two(1)] i2
  have s2: "has_shape2 (length inputs) hidden_dim h2" by auto
  from index_from_end_shape [OF sh _ two(2)] i1
  have s1: "has_shape2 (length inputs) hidden_dim h1" by auto
  define hid where "hid = map2 (@) h2 h1"
  from s2 s1 have cat: "concat_axis1 h2 h1 = Inr hid"
    by (simp add: concat_axis1_def has_shape2_def hid_def)
  from concat_axis1_shape [OF s2 s1] cat
  have "has_shape2 (length inputs) (hidden_dim + hidden_dim) hid" by auto
  then have hid2: "has_shape2 (length inputs) (hidden_dim * 2) hid"
    "has_shape2 (length inputs) (2 * hidden_dim) hid"
    by (simp_all add: mult_2_right mult_2)
  define logits where
    "logits = map (\<lambda>row. map2 (\<lambda>w b. sum_list (map2 (*) w row) + b)
                            (weight (fc self)) (bias (fc self))) hid"
  have "in_channels (fc self) = hidden_dim * 2" by (simp add: cfg(4) Dense_init_def)
  with hid2(1) have da: "dense_apply (fc self) hid = Inr logits"
    by (simp add: dense_apply_def has_shape2_def logits_def)
  from dense_apply_shape [OF hid2(1), of output_dim weight_init bias_init] da
  have sl: "has_shape2 (length inputs) output_dim logits"
    unfolding cfg(4) by auto
  have w: "has_shape2 output_dim (2 * hidden_dim) (weight (fc self))"
    "length (bias (fc self)) = output_dim"
    using Dense_init_shape [of output_dim "hidden_dim * 2" weight_init bias_init]
    by (simp_all add: cfg(4) mult.commute)
  from i1 have i1': "index_from_end hidden (Suc 0) = Inr h1" by simp
  have c: "construct embed_fn lstm_fn self inputs = Inr logits"
    using i2 i1' cat da unfolding assms(3)
    by (simp add: construct_def Let_def)
  from i2 i1 cat hid2(2) w da c sl h2_def h1_def hid_def logits_def
  show ?thesis by blast
qed

theorem construct_logits_shape_witness:
  "(0::nat) < 2 \<and>
   hidden_shape (rnn (RNN_init \<lparr>embed_dim = 100\<rparr> 256 2 2 True (\<lambda>i j. 1) (\<lambda>i. 0))) (length [[5, 7], [1, 1 :: nat]])
     (demo_lstm (rnn (RNN_init \<lparr>embed_dim = 100\<rparr> 256 2 2 True (\<lambda>i j. 1) (\<lambda>i. 0)))
        (demo_embed (embedding (RNN_init \<lparr>embed_dim = 100\<rparr> 256 2 2 True (\<lambda>i j. 1) (\<lambda>i. 0)))
           [[5, 7], [1, 1]])) \<and>
   (\<exists>logits. construct demo_embed demo_lstm
        (RNN_init \<lparr>embed_dim = 100\<rparr> 256 2 2 True (\<lambda>i j. 1) (\<lambda>i. 0)) [[5, 7], [1, 1]] = Inr logits \<and>
      has_shape2 (length [[5, 7], [1, 1 :: nat]]) 2 logits)"
proof -
  let ?m = "RNN_init \<lparr>embed_dim = 100\<rparr> 256 2 2 True (\<lambda>i j. 1) (\<lambda>i. 0)"
  have a: "(0::nat) < 2" by simp
  have b: "hidden_shape (rnn ?m) (length [[5, 7], [1, 1 :: nat]])
     (demo_lstm (rnn ?m) (demo_embed (embedding ?m) [[5, 7], [1, 1]]))"
    by (simp add: hidden_shape_def has_shape3_def has_shape2_def RNN_init_def demo_lstm_def
          demo_embed_def list_all_iff)
  from construct_logits_shape [where embed_fn = demo_embed and lstm_fn = demo_lstm
      and inputs = "[[5, 7], [1, 1]]", OF a refl refl b] a b
  show ?thesis by blast
qed

text \<open>
  A small bidirectional model with one layer, hidden size 1 and two classes, on two
  sequences: the encoder's two slices are \<open>[[12], [2]]\<close> and \<open>[[13], [3]]\<close>, the
  dense layer has weight \<open>[[1, 2], [11, 12]]\<close> and bias \<open>[0, 1]\<close>.
\<close>

lemma construct_demo:
  "construct demo_embed demo_lstm
     (RNN_init \<lparr>embed_dim = 1\<rparr> 1 2 1 True (\<lambda>i j. real (10 * i + j + 1)) real) [[5, 7], [1, 1]]
     = Inr [[38, 289], [8, 59]]"
  by (simp add: construct_def RNN_init_def Dense_init_def demo_embed_def demo_lstm_def
        index_from_end_def concat_axis1_def dense_apply_def upt_conv_Cons Let_def)

end
